theory Spec2Isabelle
  imports Main
begin

section \<open>Values of the front-end\<close>

text \<open>
  The front-end is TypeScript. Two notions of the language are needed throughout:
  truthiness of a value (the test of \<^verbatim>\<open>if (!x)\<close>) and the state of a promise.
  Numbers are integers here (no NaN), objects are opaque and always truthy.
\<close>

datatype jsval =
    JUndefined
  | JNull
  | JBool bool
  | JNum int
  | JStr string
  | JObj string

fun truthy :: "jsval \<Rightarrow> bool" where
  "truthy JUndefined = False"
| "truthy JNull = False"
| "truthy (JBool b) = b"
| "truthy (JNum n) = (n \<noteq> 0)"
| "truthy (JStr s) = (s \<noteq> [])"
| "truthy (JObj _) = True"

text \<open>
  A promise as an observer sees it: still pending, fulfilled with a value, or rejected with
  the thrown value (the loaders throw strings).
\<close>

datatype 'a promise = Pending | Fulfilled 'a | Rejected string

text \<open>
  \<^verbatim>\<open>p.then(f)\<close>: the handler runs on the fulfilment value; what it throws (\<open>Inl\<close>)
  rejects the derived promise, what it returns (\<open>Inr\<close>) fulfils it; a rejection of \<open>p\<close>
  passes through, since no rejection handler is given.
\<close>

fun promise_then :: "'a promise \<Rightarrow> ('a \<Rightarrow> string + 'b) \<Rightarrow> 'b promise" where
  "promise_then Pending f = Pending"
| "promise_then (Fulfilled v) f = (case f v of Inl e \<Rightarrow> Rejected e | Inr b \<Rightarrow> Fulfilled b)"
| "promise_then (Rejected e) f = Rejected e"


section \<open>The Select component (apps/website/src/components/input/select.svelte)\<close>

text \<open>
  \<^verbatim>\<open>type Option = { value: string; label: string; icon?: Snippet }\<close>; a snippet is
  named by a string. The fields carry the prefix \<open>opt_\<close>.
\<close>

record select_option =
  opt_value :: string
  opt_label :: string
  opt_icon :: "string option"

text \<open>
  The props and the local state of one mounted component. \<open>selected\<close> is \<open>None\<close> for
  \<^verbatim>\<open>undefined\<close>; \<open>width\<close> is the bound \<^verbatim>\<open>offsetWidth\<close>.
\<close>

record select_state =
  opts :: "select_option list"
  selected :: "string option"
  grow :: bool
  disabled :: bool
  expanded :: bool
  width :: "nat option"

text \<open>The fallback of the bindable prop: \<^verbatim>\<open>options[0]?.value ?? undefined\<close>.\<close>

definition selected_fallback :: "select_option list \<Rightarrow> string option" where
  "selected_fallback os = (case os of [] \<Rightarrow> None | x # _ \<Rightarrow> Some (opt_value x))"

text \<open>
  \<^verbatim>\<open>$props()\<close>: a prop the caller leaves undefined takes its fallback
  (\<open>grow = false\<close>, \<open>disabled = false\<close>); \<open>expanded\<close> starts false and \<open>width\<close> undefined.
\<close>

definition Select_props ::
  "select_option list \<Rightarrow> string option \<Rightarrow> bool option \<Rightarrow> bool option \<Rightarrow> select_state" where
  "Select_props os sel g d =
     \<lparr> opts = os,
       selected = (case sel of None \<Rightarrow> selected_fallback os | Some v \<Rightarrow> Some v),
       grow = (case g of None \<Rightarrow> False | Some b \<Rightarrow> b),
       disabled = (case d of None \<Rightarrow> False | Some b \<Rightarrow> b),
       expanded = False,
       width = None \<rparr>"

text \<open>\<^verbatim>\<open>$derived(options.find((o) => o.value === selected))\<close>\<close>

definition selectedLabel :: "select_state \<Rightarrow> select_option option" where
  "selectedLabel s = find (\<lambda>x. Some (opt_value x) = selected s) (opts s)"

definition toggle :: "select_state \<Rightarrow> select_state" where
  "toggle s = s\<lparr>expanded := \<not> expanded s\<rparr>"

definition close :: "select_state \<Rightarrow> select_state" where
  "close s = s\<lparr>expanded := False\<rparr>"

definition select :: "string \<Rightarrow> select_state \<Rightarrow> select_state" where
  "select option s = s\<lparr>selected := Some option, expanded := False\<rparr>"

text \<open>
  What the button shows: the icon and label of the selected option, or the translated
  \<^verbatim>\<open>labels.select\<close> when no option matches.
\<close>

datatype button_content =
    OptionLabel "string option" string
  | Translated string

definition button_content_of :: "select_state \<Rightarrow> button_content" where
  "button_content_of s =
     (case selectedLabel s of
        Some l \<Rightarrow> OptionLabel (opt_icon l) (opt_label l)
      | None \<Rightarrow> Translated ''labels.select'')"

text \<open>
  The dropdown is rendered only while expanded: one button per option, whose click runs
  \<^verbatim>\<open>select(option.value)\<close>.
\<close>

definition dropped :: "select_state \<Rightarrow> select_option list" where
  "dropped s = (if expanded s then opts s else [])"

definition click_option :: "select_option \<Rightarrow> select_state \<Rightarrow> select_state" where
  "click_option option s = select (opt_value option) s"


section \<open>The settings page loader (website/src/routes/settings/+page.ts)\<close>

text \<open>
  \<^verbatim>\<open>redirect(status, location)\<close> of SvelteKit throws; the thrown redirect is the
  \<open>Inl\<close> result of the loader. The argument is the current value of the user store.
\<close>

datatype redirect = Redirect nat string

definition settings_load :: "jsval \<Rightarrow> redirect + unit" where
  "settings_load user =
     (if \<not> truthy user then Inl (Redirect 303 ''/sign-in?continue=/settings'')
      else Inr ())"


section \<open>GraphQL queries\<close>

text \<open>
  One query handed to the client: the name of the operation in the query document, the
  variables, and the request policy when the call site gives one. The fields of the selection
  set are not modelled. The result of a query carries \<^verbatim>\<open>error\<close> and \<^verbatim>\<open>data\<close>, either
  of which may be undefined (\<open>None\<close>).
\<close>

record gql_request =
  operation :: string
  variables :: "(string \<times> jsval) list"
  requestPolicy :: "string option"

record 'd query_result =
  res_error :: "string option"
  res_data :: "'d option"

text \<open>
  What a loader does to the world around it: the keys it registers with \<^verbatim>\<open>depends\<close> and
  the queries it hands to the client, in order. Whether the client puts a query on the wire
  or serves it otherwise is the client's affair and is not recorded. The answer that comes
  back for a query is a parameter \<open>fetch\<close> of the loaders.
\<close>

record load_env =
  depends_on :: "string list"
  requests :: "gql_request list"

definition depends :: "string \<Rightarrow> load_env \<Rightarrow> load_env" where
  "depends key env = env\<lparr>depends_on := depends_on env @ [key]\<rparr>"

definition send_query :: "gql_request \<Rightarrow> load_env \<Rightarrow> load_env" where
  "send_query q env = env\<lparr>requests := requests env @ [q]\<rparr>"


section \<open>The emote layout loader (unnamed source part 000)\<close>

text \<open>
  Of an emote only the scalar fields of the query are kept. \<open>data_emote\<close> is
  \<^verbatim>\<open>data.emotes.emote\<close>, null (\<open>None\<close>) when the server finds no emote.
\<close>

record emote =
  emote_id :: string
  defaultName :: string
  tags :: "string list"
  imagesPending :: bool
  deleted :: bool

record emote_data =
  data_emote :: "emote option"

text \<open>
  The handler \<^verbatim>\<open>(res) => res.data?.emotes.emote as Emote\<close>: it never throws; without
  data the optional chain gives undefined, and the cast changes nothing at run time.
\<close>

definition emotes_then :: "emote_data query_result \<Rightarrow> string + emote option" where
  "emotes_then res =
     Inr (case res_data res of None \<Rightarrow> None | Some d \<Rightarrow> data_emote d)"

record emote_page_data =
  emote_page_id :: string
  streamed_emote :: "emote option promise"

text \<open>
  The variables of the query \<^verbatim>\<open>OneEmote\<close>: \<^verbatim>\<open>!!defaultSet\<close> and
  \<^verbatim>\<open>defaultSet ?? ""\<close>, for the value of the default-emote-set store.
\<close>

definition OneEmote :: "jsval \<Rightarrow> string \<Rightarrow> gql_request" where
  "OneEmote defaultSet pid =
     \<lparr> operation = ''OneEmote'',
       variables =
         [(''id'', JStr pid),
          (''isDefaultSetSet'', JBool (truthy defaultSet)),
          (''defaultSetId'',
             if defaultSet = JUndefined \<or> defaultSet = JNull then JStr [] else defaultSet)],
       requestPolicy = Some ''network-only'' \<rparr>"

definition emotes_load ::
  "jsval \<Rightarrow> (gql_request \<Rightarrow> emote_data query_result promise) \<Rightarrow> string \<Rightarrow> load_env
     \<Rightarrow> emote_page_data \<times> load_env" where
  "emotes_load defaultSet fetch pid env =
     (let env1 = depends (''emotes:'' @ pid) env;
          q = OneEmote defaultSet pid;
          req = promise_then (fetch q) emotes_then
      in (\<lparr> emote_page_id = pid, streamed_emote = req \<rparr>, send_query q env1))"

definition no_env :: load_env where
  "no_env = \<lparr> depends_on = [], requests = [] \<rparr>"


section \<open>The user layout loader (apps/website/src/routes/users/[id]/+layout.ts)\<close>

text \<open>
  Modelled from the spec: the class \<^verbatim>\<open>ProxyState\<close> of \<^verbatim>\<open>$/lib/proxy.svelte\<close>, of which
  the sources hold the import and the constructor call only. By the spec it is
  constructed with a pending request and exposes the eventual resolved value, or propagates
  the rejection, to the consumer: a holder of the request, which the consumer awaits.
\<close>

record 'a ProxyState =
  held :: "'a promise"

definition new_ProxyState :: "'a promise \<Rightarrow> 'a ProxyState" where
  "new_ProxyState req = \<lparr> held = req \<rparr>"

definition exposed :: "'a ProxyState \<Rightarrow> 'a promise" where
  "exposed st = held st"

record role =
  role_name :: string
  role_color :: "string option"

record user =
  user_id :: string
  displayName :: "string option"
  roles :: "role list"

text \<open>
  The handler of the user query; \<open>res_data\<close> is \<^verbatim>\<open>data.users.user\<close> when data is present.
  \<^verbatim>\<open>filterRoles\<close> of \<^verbatim>\<open>$/lib/utils\<close> is a parameter.
\<close>

definition users_then ::
  "(role list \<Rightarrow> role list) \<Rightarrow> user option query_result \<Rightarrow> string + user" where
  "users_then filterRoles res =
     (if res_error res \<noteq> None \<or> res_data res = None then Inl ''Failed to load user''
      else case the (res_data res) of
             None \<Rightarrow> Inl ''User not found''
           | Some u \<Rightarrow> Inr (u\<lparr>roles := filterRoles (roles u)\<rparr>))"

definition OneUser :: "string \<Rightarrow> gql_request" where
  "OneUser pid =
     \<lparr> operation = ''OneUser'', variables = [(''id'', JStr pid)], requestPolicy = None \<rparr>"

record user_page_data =
  user_page_id :: string
  streamed_userRequest :: "user ProxyState"

definition users_load ::
  "(role list \<Rightarrow> role list) \<Rightarrow> (gql_request \<Rightarrow> user option query_result promise) \<Rightarrow> string
     \<Rightarrow> load_env \<Rightarrow> user_page_data \<times> load_env" where
  "users_load filterRoles fetch pid env =
     (let q = OneUser pid;
          req = promise_then (fetch q) (users_then filterRoles);
          state = new_ProxyState req
      in (\<lparr> user_page_id = pid, streamed_userRequest = state \<rparr>, send_query q env))"


section \<open>The admin special-events page\<close>

record special_event =
  event_id :: string
  event_name :: string
  event_description :: string
  event_tags :: "string list"
  createdBy :: "string option"
  createdAt :: string

text \<open>
  \<^verbatim>\<open>querySpecialEvents\<close> awaits the query and returns
  \<^verbatim>\<open>res.data?.specialEvents.specialEvents\<close>: the list, or undefined without data.
\<close>

definition AdminSpecialEvents :: gql_request where
  "AdminSpecialEvents = \<lparr> operation = ''AdminSpecialEvents'', variables = [], requestPolicy = None \<rparr>"

definition querySpecialEvents ::
  "(gql_request \<Rightarrow> special_event list query_result promise)
     \<Rightarrow> special_event list option promise" where
  "querySpecialEvents fetch =
     promise_then (fetch AdminSpecialEvents) (\<lambda>res. Inr (res_data res))"

datatype DialogMode = hidden | shown

text \<open>
  The state of the page. \<open>results\<close> is undefined (\<open>None\<close>) until the effect has run, then
  the promise of the last query.
\<close>

record events_page =
  results :: "special_event list option promise option"
  createDialogMode :: DialogMode
  assignEntitlementsDialog :: "string option"
  viewEntitlementsDialog :: "string option"

definition events_page_init :: events_page where
  "events_page_init =
     \<lparr> results = None, createDialogMode = hidden,
       assignEntitlementsDialog = None, viewEntitlementsDialog = None \<rparr>"

definition events_effect ::
  "(gql_request \<Rightarrow> special_event list query_result promise) \<Rightarrow> events_page \<Rightarrow> events_page" where
  "events_effect fetch s =
     (if createDialogMode s = hidden then s\<lparr>results := Some (querySpecialEvents fetch)\<rparr>
      else s)"

text \<open>
  The children of the table body. A row of an event shows its name, its description, the
  tags joined by a comma and a space, the creator or \<^verbatim>\<open>System\<close>, and the creation time.
  The row carries the creator by name and the creation time as the query gives it: the
  component that shows the user name, the two renderings of the time and the cell of the
  action buttons are not modelled.
\<close>

datatype tbody_node =
    SpinnerRow
  | AdminAssignEntitlementDialog DialogMode string string
  | AdminViewEntitlementDialog DialogMode string string
  | EventRow string string string string string
  | NoSpecialEventsRow

fun join :: "string \<Rightarrow> string list \<Rightarrow> string" where
  "join sep [] = []"
| "join sep [x] = x"
| "join sep (x # y # ys) = x @ sep @ join sep (y # ys)"

definition event_nodes :: "events_page \<Rightarrow> special_event \<Rightarrow> tbody_node list" where
  "event_nodes s specialEvent =
     [AdminAssignEntitlementDialog
        (if assignEntitlementsDialog s = Some (event_id specialEvent) then shown else hidden)
        (event_id specialEvent) (event_name specialEvent),
      AdminViewEntitlementDialog
        (if viewEntitlementsDialog s = Some (event_id specialEvent) then shown else hidden)
        (event_id specialEvent) (event_name specialEvent),
      EventRow (event_name specialEvent) (event_description specialEvent)
        (join '', '' (event_tags specialEvent))
        (case createdBy specialEvent of Some u \<Rightarrow> u | None \<Rightarrow> ''System'')
        (createdAt specialEvent)]"

text \<open>The \<^verbatim>\<open>{:then results}\<close> branch: \<^verbatim>\<open>{#if results && results.length > 0}\<close>.\<close>

definition then_rows :: "events_page \<Rightarrow> special_event list option \<Rightarrow> tbody_node list" where
  "then_rows s r =
     (case r of
        None \<Rightarrow> [NoSpecialEventsRow]
      | Some rs \<Rightarrow>
          if length rs > 0 then concat (map (event_nodes s) rs) else [NoSpecialEventsRow])"

text \<open>
  The \<^verbatim>\<open>{#await results}\<close> block: the spinner while pending, the then-branch once
  fulfilled and also for a value that is no promise (undefined), nothing on rejection, the
  block having no catch branch.
\<close>

definition tbody :: "events_page \<Rightarrow> tbody_node list" where
  "tbody s =
     (case results s of
        None \<Rightarrow> then_rows s None
      | Some Pending \<Rightarrow> [SpinnerRow]
      | Some (Fulfilled r) \<Rightarrow> then_rows s r
      | Some (Rejected e) \<Rightarrow> [])"

fun is_EventRow :: "tbody_node \<Rightarrow> bool" where
  "is_EventRow (EventRow n d t c a) = True"
| "is_EventRow _ = False"


section \<open>The image-processor manifest (infrastructure/cluster/kubectl/app/image-processor.yaml)\<close>

text \<open>
  The two documents of the manifest as data. A port is referred to by number or by the name
  of a container port; a probe has one handler.
\<close>

datatype port_ref = PortNumber nat | PortName string

datatype probe =
    HttpGet port_ref string
  | TcpSocket port_ref
  | Exec "string list"

record container_port =
  containerPort :: nat
  port_name :: string

record volume_mount =
  mount_name :: string
  mountPath :: string
  subPath :: string

record container =
  container_name :: string
  image :: string
  imagePullPolicy :: string
  args :: "string list"
  limits :: "(string \<times> string) list"
  resource_requests :: "(string \<times> string) list"
  livenessProbe :: "probe option"
  readinessProbe :: "probe option"
  envFrom :: "string list"
  container_ports :: "container_port list"
  volumeMounts :: "volume_mount list"

record deployment =
  deployment_name :: string
  deployment_namespace :: string
  deployment_labels :: "(string \<times> string) list"
  matchLabels :: "(string \<times> string) list"
  template_labels :: "(string \<times> string) list"
  containers :: "container list"
  volumes :: "(string \<times> string) list"

record service_port =
  service_port_name :: string
  port :: nat
  targetPort :: port_ref

record service =
  service_name :: string
  service_namespace :: string
  service_labels :: "(string \<times> string) list"
  selector :: "(string \<times> string) list"
  service_ports :: "service_port list"

definition image_processor_container :: container where
  "image_processor_container =
     \<lparr> container_name = ''image-processor'',
       image = ''ghcr.io/seventv/image-processor:latest'',
       imagePullPolicy = ''Always'',
       args = [''--config=/app/config.toml''],
       limits = [(''memory'', ''16Gi''), (''cpu'', ''12000m'')],
       resource_requests = [(''memory'', ''16Gi''), (''cpu'', ''12000m'')],
       livenessProbe = Some (HttpGet (PortName ''metrics'') ''/health''),
       readinessProbe = Some (HttpGet (PortName ''metrics'') ''/health''),
       envFrom = [''image-processor''],
       container_ports =
         [\<lparr> containerPort = 50051, port_name = ''grpc'' \<rparr>,
          \<lparr> containerPort = 9000, port_name = ''metrics'' \<rparr>],
       volumeMounts =
         [\<lparr> mount_name = ''config'', mountPath = ''/app/config.toml'',
            subPath = ''config.toml'' \<rparr>] \<rparr>"

definition image_processor_deployment :: deployment where
  "image_processor_deployment =
     \<lparr> deployment_name = ''image-processor'',
       deployment_namespace = ''app'',
       deployment_labels = [(''app'', ''image-processor'')],
       matchLabels = [(''app'', ''image-processor'')],
       template_labels = [(''app'', ''image-processor'')],
       containers = [image_processor_container],
       volumes = [(''config'', ''image-processor'')] \<rparr>"

definition image_processor_service :: service where
  "image_processor_service =
     \<lparr> service_name = ''image-processor'',
       service_namespace = ''app'',
       service_labels = [(''app'', ''image-processor'')],
       selector = [(''app'', ''image-processor'')],
       service_ports =
         [\<lparr> service_port_name = ''grpc'', port = 50051, targetPort = PortName ''grpc'' \<rparr>,
          \<lparr> service_port_name = ''metrics'', port = 9000, targetPort = PortNumber 9000 \<rparr>] \<rparr>"

text \<open>
  The port of a container that a reference denotes: a number stands for itself, a name for
  the container port declared under it.
\<close>

definition resolve_port :: "container \<Rightarrow> port_ref \<Rightarrow> nat option" where
  "resolve_port c r =
     (case r of
        PortNumber n \<Rightarrow> Some n
      | PortName s \<Rightarrow> map_option containerPort (find (\<lambda>p. port_name p = s) (container_ports c)))"

text \<open>The containers a service selects, and where its port of a given name arrives.\<close>

definition selects :: "service \<Rightarrow> deployment \<Rightarrow> bool" where
  "selects svc d =
     (service_namespace svc = deployment_namespace d
      \<and> list_all (\<lambda>l. l \<in> set (template_labels d)) (selector svc))"

definition service_target :: "service \<Rightarrow> container \<Rightarrow> string \<Rightarrow> (nat \<times> nat) option" where
  "service_target svc c n =
     (case find (\<lambda>p. service_port_name p = n) (service_ports svc) of
        None \<Rightarrow> None
      | Some p \<Rightarrow> map_option (\<lambda>t. (port p, t)) (resolve_port c (targetPort p)))"

text \<open>The HTTP check of a probe: the resolved port and the path.\<close>

definition http_check :: "container \<Rightarrow> probe option \<Rightarrow> (nat \<times> string) option" where
  "http_check c pr =
     (case pr of
        Some (HttpGet r path) \<Rightarrow> map_option (\<lambda>n. (n, path)) (resolve_port c r)
      | _ \<Rightarrow> None)"

fun is_HttpGet :: "probe \<Rightarrow> bool" where
  "is_HttpGet (HttpGet r path) = True"
| "is_HttpGet _ = False"


section \<open>The activity tables (ClickHouse DDL beside website/src/routes/settings/+page.ts)\<close>

datatype column_type =
    UUID
  | Nullable column_type
  | Enum8 "(string \<times> int) list"
  | DateTime64 nat

record column =
  column_name :: string
  column_ty :: column_type
  column_default :: "string option"

record table =
  table_name :: string
  columns :: "column list"
  engine :: string
  order_by :: "string list"

definition emote_activities :: table where
  "emote_activities =
     \<lparr> table_name = ''emote_activities'',
       columns =
         [\<lparr> column_name = ''emote_id'', column_ty = UUID, column_default = None \<rparr>,
          \<lparr> column_name = ''actor_id'', column_ty = Nullable UUID, column_default = None \<rparr>,
          \<lparr> column_name = ''kind'',
            column_ty =
              Enum8
               [(''UPLOAD'', 0),
                (''EDIT'', 1),
                (''MERGE'', 2),
                (''DELETE'', 3)],
            column_default = None \<rparr>,
          \<lparr> column_name = ''timestamp'', column_ty = DateTime64 9,
            column_default = Some ''NOW()'' \<rparr>],
       engine = ''MergeTree'',
       order_by = [''emote_id'', ''kind'', ''timestamp''] \<rparr>"

definition emote_set_activities :: table where
  "emote_set_activities =
     \<lparr> table_name = ''emote_set_activities'',
       columns =
         [\<lparr> column_name = ''emote_set_id'', column_ty = UUID, column_default = None \<rparr>,
          \<lparr> column_name = ''actor_id'', column_ty = Nullable UUID, column_default = None \<rparr>,
          \<lparr> column_name = ''kind'',
            column_ty =
              Enum8
               [(''CREATE'', 0),
                (''EDIT'', 1),
                (''DELETE'', 2)],
            column_default = None \<rparr>,
          \<lparr> column_name = ''timestamp'', column_ty = DateTime64 9,
            column_default = Some ''NOW()'' \<rparr>],
       engine = ''MergeTree'',
       order_by = [''emote_set_id'', ''kind'', ''timestamp''] \<rparr>"

definition user_activities :: table where
  "user_activities =
     \<lparr> table_name = ''user_activities'',
       columns =
         [\<lparr> column_name = ''user_id'', column_ty = UUID, column_default = None \<rparr>,
          \<lparr> column_name = ''actor_id'', column_ty = Nullable UUID, column_default = None \<rparr>,
          \<lparr> column_name = ''kind'',
            column_ty =
              Enum8
               [(''REGISTER'', 0),
                (''LOGIN'', 1),
                (''LOGOUT'', 2),
                (''EDIT'', 3),
                (''DELETE'', 4),
                (''MERGE'', 5),
                (''BAN'', 6),
                (''UNBAN'', 7)],
            column_default = None \<rparr>,
          \<lparr> column_name = ''timestamp'', column_ty = DateTime64 9,
            column_default = Some ''NOW()'' \<rparr>],
       engine = ''MergeTree'',
       order_by = [''user_id'', ''kind'', ''timestamp''] \<rparr>"

text \<open>
  The codes of the column \<^verbatim>\<open>kind\<close> of a table, the code of one kind, and the column
  that identifies the entity (the first one).
\<close>

definition kind_codes :: "table \<Rightarrow> (string \<times> int) list" where
  "kind_codes t =
     (case find (\<lambda>c. column_name c = ''kind'') (columns t) of
        Some c \<Rightarrow> (case column_ty c of Enum8 kv \<Rightarrow> kv | _ \<Rightarrow> [])
      | None \<Rightarrow> [])"

definition kind_code :: "table \<Rightarrow> string \<Rightarrow> int option" where
  "kind_code t k = map_of (kind_codes t) k"

definition entity_column :: "table \<Rightarrow> string option" where
  "entity_column t = (case columns t of [] \<Rightarrow> None | c # _ \<Rightarrow> Some (column_name c))"


section \<open>Inputs of the examples\<close>

text \<open>
  A network whose every answer carries an error and no data, and one special event.
\<close>

definition failing_network :: "gql_request \<Rightarrow> 'd query_result promise" where
  "failing_network q =
     Fulfilled \<lparr> res_error = Some ''[Network] Failed to fetch'', res_data = None \<rparr>"

definition one_event :: special_event where
  "one_event =
     \<lparr> event_id = ''01'', event_name = ''Launch'', event_description = ''First event'',
       event_tags = [''a'', ''b''], createdBy = None, createdAt = ''2024-01-01T00:00:00Z'' \<rparr>"


section \<open>Properties of the Select component\<close>

lemma selectedLabel_fallback:
  "selectedLabel (Select_props (x # xs) None g d) = Some x"
  by (simp add: selectedLabel_def Select_props_def selected_fallback_def)

lemma button_content_fallback_nonempty:
  "button_content_of (Select_props (x # xs) None g d) = OptionLabel (opt_icon x) (opt_label x)"
  by (simp add: button_content_of_def selectedLabel_fallback)

text \<open>
  Claim C9. When the caller binds no selected value, the selected value starts as the value of
  the first option for every non-empty list of options, and as undefined for the empty list;
  in the latter case the button shows the fallback select label, not an option label.
\<close>

theorem selected_initialised:
  "(os \<noteq> [] \<longrightarrow> selected (Select_props os None g d) = Some (opt_value (os ! 0)))
   \<and> selected (Select_props [] None g d) = None
   \<and> button_content_of (Select_props [] None g d) = Translated ''labels.select''"
  by (cases os)
     (simp_all add: Select_props_def selected_fallback_def button_content_of_def
        selectedLabel_def)

theorem selected_initialised_witness:
  "[\<lparr>opt_value = ''a'', opt_label = ''A'', opt_icon = None\<rparr>] \<noteq> []
   \<and> selected (Select_props [\<lparr>opt_value = ''a'', opt_label = ''A'', opt_icon = None\<rparr>]
        None None None) = Some ''a''"
  using selected_initialised
    [of "[\<lparr>opt_value = ''a'', opt_label = ''A'', opt_icon = None\<rparr>]" None None]
  by simp

text \<open>
  Claim C10. After \<open>select\<close> has run for any option value, the selected state is that value
  and the dropdown is closed.
\<close>

theorem select_sets_and_closes:
  "selected (select v s) = Some v \<and> expanded (select v s) = False"
  by (simp add: select_def)

lemma select_hides_dropdown: "dropped (click_option option s) = []"
  by (simp add: dropped_def click_option_def select_def)


section \<open>Properties of the settings loader\<close>

text \<open>
  Claim C8. The settings loader redirects with status 303 to the sign-in page, continuing to
  the settings, exactly when the user store holds a falsy value; with a user present it
  returns normally.
\<close>

theorem settings_load_redirect:
  "(settings_load u = Inl (Redirect 303 ''/sign-in?continue=/settings'')) = (\<not> truthy u)
   \<and> (truthy u \<longrightarrow> settings_load u = Inr ())"
  by (simp add: settings_load_def)

theorem settings_load_redirect_witness:
  "truthy (JObj ''user'') \<and> settings_load (JObj ''user'') = Inr ()
   \<and> settings_load JNull = Inl (Redirect 303 ''/sign-in?continue=/settings'')"
  using settings_load_redirect [of "JObj ''user''"] settings_load_redirect [of JNull]
  by simp

section \<open>Properties of the loaders\<close>

lemma users_then_failed:
  "res_error res \<noteq> None \<or> res_data res = None \<Longrightarrow>
     users_then fr res = Inl ''Failed to load user''"
  by (auto simp add: users_then_def)

lemma users_then_not_found:
  "res_error res = None \<Longrightarrow> res_data res = Some None \<Longrightarrow>
     users_then fr res = Inl ''User not found''"
  by (simp add: users_then_def)

lemma users_then_returns:
  "users_then fr res = Inr u \<Longrightarrow>
     \<exists>u0. res_error res = None \<and> res_data res = Some (Some u0) \<and> u = u0\<lparr>roles := fr (roles u0)\<rparr>"
  by (auto simp add: users_then_def split: if_splits option.splits)

lemma promise_then_Fulfilled:
  "promise_then p f = Fulfilled b \<Longrightarrow> \<exists>v. p = Fulfilled v \<and> f v = Inr b"
  by (cases p) (auto split: sum.splits)

lemma users_load_fulfilled:
  assumes "exposed (streamed_userRequest (fst (users_load fr fetch pid env))) = Fulfilled u"
  shows "\<exists>res u0. fetch (OneUser pid) = Fulfilled res \<and> res_error res = None
           \<and> res_data res = Some (Some u0) \<and> u = u0\<lparr>roles := fr (roles u0)\<rparr>"
proof -
  from assms have h: "promise_then (fetch (OneUser pid)) (users_then fr) = Fulfilled u"
    by (simp add: users_load_def exposed_def new_ProxyState_def Let_def)
  from promise_then_Fulfilled [OF h] obtain res where
    r1: "fetch (OneUser pid) = Fulfilled res" and r2: "users_then fr res = Inr u"
    by (elim exE conjE)
  from users_then_returns [OF r2] obtain u0 where
    "res_error res = None" "res_data res = Some (Some u0)" "u = u0\<lparr>roles := fr (roles u0)\<rparr>"
    by (elim exE conjE)
  with r1 show ?thesis
    by (intro exI conjI)
qed

lemma users_load_settles:
  assumes "fetch (OneUser pid) = Fulfilled res"
  shows "exposed (streamed_userRequest (fst (users_load fr fetch pid env))) =
           (if res_error res \<noteq> None \<or> res_data res = None then Rejected ''Failed to load user''
            else case the (res_data res) of
                   None \<Rightarrow> Rejected ''User not found''
                 | Some u \<Rightarrow> Fulfilled (u\<lparr>roles := fr (roles u)\<rparr>))"
  using assms
  by (simp add: users_load_def exposed_def new_ProxyState_def Let_def users_then_def
      split: option.splits)

lemma emotes_then_returns: "\<exists>v. emotes_then res = Inr v"
  by (simp add: emotes_then_def)

text \<open>
  Claim C1. For every route loader, a GraphQL error or missing data in the response is to
  surface as a rejection of the streamed promise (with the text \<^verbatim>\<open>Failed to load user\<close>
  for an error or no data, \<^verbatim>\<open>User not found\<close> for a null user), never as a fulfilment
  that carries no value. The user loader does so, as the lemmas above show. The emote loader
  does not: when the response carries an error and no data, its streamed promise is fulfilled
  with undefined.
\<close>

theorem emotes_load_error_fulfilled_undefined:
  "streamed_emote (fst (emotes_load JUndefined failing_network ''01F'' no_env)) = Fulfilled None"
  by (simp add: emotes_load_def Let_def failing_network_def emotes_then_def)

lemma emotes_load_env:
  "snd (emotes_load d f k env) =
     env\<lparr>depends_on := depends_on env @ [''emotes:'' @ k],
         requests := requests env @ [OneEmote d k]\<rparr>"
  by (simp add: emotes_load_def Let_def depends_def send_query_def)

text \<open>
  Claim C3. For every promise, a \<^verbatim>\<open>ProxyState\<close> constructed with it as the pending
  request exposes to its consumer that very request: the value it is fulfilled with, and its
  rejection when it rejects, neither swallowed nor replaced.
\<close>

theorem ProxyState_exposes_request:
  "exposed (new_ProxyState p) = p
   \<and> exposed (new_ProxyState (Fulfilled v)) = Fulfilled v
   \<and> exposed (new_ProxyState (Rejected e)) = Rejected e"
  by (simp add: exposed_def new_ProxyState_def)


section \<open>Properties of the special-events table\<close>

lemma event_nodes_rows:
  "filter is_EventRow (event_nodes s e) =
     [EventRow (event_name e) (event_description e) (join '', '' (event_tags e))
        (case createdBy e of Some u \<Rightarrow> u | None \<Rightarrow> ''System'') (createdAt e)]"
  by (simp add: event_nodes_def)

lemma then_rows_event_row:
  "n \<in> set (then_rows s r) \<Longrightarrow> is_EventRow n \<Longrightarrow> \<exists>rs. r = Some rs \<and> rs \<noteq> []"
  by (cases r) (auto simp add: then_rows_def split: if_splits)

text \<open>
  Claim C6. When the query of the special events resolves with the empty list, the table body
  is the single row \<^verbatim>\<open>No Special Events\<close> and holds no row of an event; a row of an
  event is rendered only when the promise is fulfilled with a non-empty list.
\<close>

theorem tbody_empty_state:
  "tbody (s\<lparr>results := Some (Fulfilled (Some []))\<rparr>) = [NoSpecialEventsRow]
   \<and> (\<forall>n \<in> set (tbody s). is_EventRow n \<longrightarrow>
        (\<exists>rs. results s = Some (Fulfilled (Some rs)) \<and> rs \<noteq> []))"
proof (intro conjI ballI impI)
  show "tbody (s\<lparr>results := Some (Fulfilled (Some []))\<rparr>) = [NoSpecialEventsRow]"
    by (simp add: tbody_def then_rows_def)
next
  fix n
  assume n: "n \<in> set (tbody s)" and row: "is_EventRow n"
  show "\<exists>rs. results s = Some (Fulfilled (Some rs)) \<and> rs \<noteq> []"
  proof (cases "results s")
    case None
    with n row show ?thesis
      by (simp add: tbody_def then_rows_def)
  next
    case (Some p)
    show ?thesis
    proof (cases p)
      case Pending
      with Some n row show ?thesis by (simp add: tbody_def)
    next
      case (Fulfilled r)
      with Some n have "n \<in> set (then_rows s r)" by (simp add: tbody_def)
      from then_rows_event_row [OF this row] Some Fulfilled show ?thesis by simp
    next
      case (Rejected e)
      with Some n show ?thesis by (simp add: tbody_def)
    qed
  qed
qed

theorem tbody_empty_state_witness:
  "EventRow ''Launch'' ''First event'' ''a, b'' ''System'' ''2024-01-01T00:00:00Z''
     \<in> set (tbody (events_page_init\<lparr>results := Some (Fulfilled (Some [one_event]))\<rparr>))
   \<and> is_EventRow (EventRow ''Launch'' ''First event'' ''a, b'' ''System'' ''2024-01-01T00:00:00Z'')
   \<and> (\<exists>rs. results (events_page_init\<lparr>results := Some (Fulfilled (Some [one_event]))\<rparr>)
               = Some (Fulfilled (Some rs)) \<and> rs \<noteq> [])
   \<and> tbody (events_page_init\<lparr>results := Some (Fulfilled (Some []))\<rparr>) = [NoSpecialEventsRow]"
proof -
  let ?s = "events_page_init\<lparr>results := Some (Fulfilled (Some [one_event]))\<rparr>"
  let ?n = "EventRow ''Launch'' ''First event'' ''a, b'' ''System'' ''2024-01-01T00:00:00Z''"
  have m: "?n \<in> set (tbody ?s)"
    by (simp add: tbody_def then_rows_def event_nodes_def one_event_def events_page_init_def)
  have r: "is_EventRow ?n" by simp
  from tbody_empty_state [of ?s] m r
  have "\<exists>rs. results ?s = Some (Fulfilled (Some rs)) \<and> rs \<noteq> []" by blast
  moreover from tbody_empty_state [of events_page_init]
  have "tbody (events_page_init\<lparr>results := Some (Fulfilled (Some []))\<rparr>) = [NoSpecialEventsRow]"
    by simp
  ultimately show ?thesis using m r by simp
qed

section \<open>Properties of the image-processor manifest\<close>

text \<open>
  Claim C5. The deployment exposes the gRPC service on the container port 50051, which the
  service offers on port 50051, and the metrics endpoint on port 9000 of both; the path
  \<^verbatim>\<open>/health\<close> of the probes is served on the metrics port.
\<close>

theorem image_processor_ports:
  "containers image_processor_deployment = [image_processor_container]
   \<and> selects image_processor_service image_processor_deployment
   \<and> resolve_port image_processor_container (PortName ''grpc'') = Some 50051
   \<and> resolve_port image_processor_container (PortName ''metrics'') = Some 9000
   \<and> service_target image_processor_service image_processor_container ''grpc''
         = Some (50051, 50051)
   \<and> service_target image_processor_service image_processor_container ''metrics''
         = Some (9000, 9000)
   \<and> http_check image_processor_container (livenessProbe image_processor_container)
         = Some (9000, ''/health'')
   \<and> http_check image_processor_container (readinessProbe image_processor_container)
         = Some (9000, ''/health'')"
  by (simp add: image_processor_deployment_def image_processor_container_def
      image_processor_service_def selects_def resolve_port_def service_target_def
      http_check_def)

text \<open>
  Claim C7. The container of the deployment declares a liveness probe and a readiness probe,
  each of them an HTTP GET check.
\<close>

theorem image_processor_probes:
  "containers image_processor_deployment = [image_processor_container]
   \<and> livenessProbe image_processor_container = Some (HttpGet (PortName ''metrics'') ''/health'')
   \<and> readinessProbe image_processor_container = Some (HttpGet (PortName ''metrics'') ''/health'')
   \<and> map_option is_HttpGet (livenessProbe image_processor_container) = Some True
   \<and> map_option is_HttpGet (readinessProbe image_processor_container) = Some True"
  by (simp add: image_processor_deployment_def image_processor_container_def)

section \<open>Properties of the activity tables\<close>

lemma activity_kind_code_lookup:
  "kind_code emote_activities ''MERGE'' = Some 2
   \<and> kind_code emote_set_activities ''DELETE'' = Some 2
   \<and> kind_code user_activities ''UNBAN'' = Some 7
   \<and> kind_code emote_set_activities ''MERGE'' = None"
  by (simp add: kind_code_def kind_codes_def emote_activities_def emote_set_activities_def
      user_activities_def)

lemma activity_kind_codes_distinct:
  "distinct (map snd (kind_codes emote_activities))
   \<and> distinct (map snd (kind_codes emote_set_activities))
   \<and> distinct (map snd (kind_codes user_activities))"
  by (simp add: kind_codes_def emote_activities_def emote_set_activities_def
      user_activities_def)

text \<open>
  Claim C4. The kinds of the three activity tables have exactly these codes: for the emotes
  UPLOAD 0, EDIT 1, MERGE 2, DELETE 3; for the emote sets CREATE 0, EDIT 1, DELETE 2; for the
  users REGISTER 0, LOGIN 1, LOGOUT 2, EDIT 3, DELETE 4, MERGE 5, BAN 6, UNBAN 7. Each table is
  ordered by the id of its entity, the kind and the timestamp.
\<close>

theorem activity_tables_kinds_and_order:
  "kind_codes emote_activities =
     [(''UPLOAD'', 0), (''EDIT'', 1), (''MERGE'', 2), (''DELETE'', 3)]
   \<and> kind_codes emote_set_activities =
     [(''CREATE'', 0), (''EDIT'', 1), (''DELETE'', 2)]
   \<and> kind_codes user_activities =
     [(''REGISTER'', 0), (''LOGIN'', 1), (''LOGOUT'', 2), (''EDIT'', 3), (''DELETE'', 4),
      (''MERGE'', 5), (''BAN'', 6), (''UNBAN'', 7)]
   \<and> entity_column emote_activities = Some ''emote_id''
   \<and> order_by emote_activities = [''emote_id'', ''kind'', ''timestamp'']
   \<and> entity_column emote_set_activities = Some ''emote_set_id''
   \<and> order_by emote_set_activities = [''emote_set_id'', ''kind'', ''timestamp'']
   \<and> entity_column user_activities = Some ''user_id''
   \<and> order_by user_activities = [''user_id'', ''kind'', ''timestamp'']"
  by (simp add: kind_codes_def entity_column_def emote_activities_def
      emote_set_activities_def user_activities_def)

end
